theory Spec2Isabelle
  imports Complex_Main
begin

section \<open>Values, exceptions and the external propagation library\<close>

text \<open>
  Python floats are modelled by the reals: rounding, infinities and NaN are abstracted.
  A point in time (a \<^verbatim>\<open>datetime\<close>) is a real number of seconds from an arbitrary
  origin; \<^verbatim>\<open>timedelta(hours=h)\<close> adds \<open>h * 3600\<close> seconds. Console output
  (\<^verbatim>\<open>print\<close>) is not modelled.
\<close>

type_synonym vec3 = "real \<times> real \<times> real"

type_synonym path = "real list \<times> real list \<times> real list"

text \<open>An exception is a value; the string is what \<^verbatim>\<open>str(e)\<close> gives.\<close>

datatype exn =
    ValueError string
  | IndexError string
  | ZeroDivisionError string
  | LibraryError string

fun str_exn :: "exn \<Rightarrow> string" where
  "str_exn (ValueError m) = m"
| "str_exn (IndexError m) = m"
| "str_exn (ZeroDivisionError m) = m"
| "str_exn (LibraryError m) = m"

function show_nat :: "nat \<Rightarrow> string" where
  "show_nat n =
     (if n < 10 then [char_of (48 + n)]
      else show_nat (n div 10) @ [char_of (48 + n mod 10)])"
  by pat_completeness auto
termination
  by (relation "measure (\<lambda>n. n)") auto

definition show_int :: "int \<Rightarrow> string" where
  "show_int i = (if i < 0 then CHR ''-'' # show_nat (nat (- i)) else show_nat (nat i))"

text \<open>
  \<^verbatim>\<open>skyfield.api.EarthSatellite\<close>: the fields of the library's object that the
  repository reads (\<^verbatim>\<open>sat.name\<close>, \<^verbatim>\<open>satellite.epoch\<close>,
  \<^verbatim>\<open>satellite.model.satnum\<close>).
\<close>

record EarthSatellite =
  name :: string
  satnum :: nat
  epoch :: real

text \<open>
  The propagation library is not part of the repository. \<^verbatim>\<open>satellite.at(t)\<close>
  followed by \<^verbatim>\<open>.position.km\<close> is a parameter of the model: a function from the
  satellite and the time to a position in km, or to the exception the library raises.
  \<^verbatim>\<open>load.tle_file(path)\<close> is a parameter too: the list of satellites the library
  parses from the file, or the exception it raises.
\<close>

type_synonym propagator = "EarthSatellite \<Rightarrow> real \<Rightarrow> exn + vec3"

type_synonym tle_reader = "string \<Rightarrow> exn + EarthSatellite list"

text \<open>
  \<^verbatim>\<open>self.ts.utc(dt.year, dt.month, dt.day, dt.hour, dt.minute, dt.second)\<close>
  passes whole seconds only: the microseconds of the datetime are dropped.
\<close>

definition utc :: "real \<Rightarrow> real" where
  "utc dt = of_int \<lfloor>dt\<rfloor>"

definition timedelta_hours :: "real \<Rightarrow> real" where
  "timedelta_hours h = h * 3600"

section \<open>orbit_predictor.py\<close>

record SatelliteOrbitPredictor =
  satellites :: "string \<rightharpoonup> EarthSatellite"

definition init_predictor :: SatelliteOrbitPredictor where
  "init_predictor = \<lparr>satellites = Map.empty\<rparr>"

text \<open>The loop \<^verbatim>\<open>for sat in satellites: self.satellites[sat.name] = sat\<close>.\<close>

fun store_satellites ::
  "(string \<rightharpoonup> EarthSatellite) \<Rightarrow> EarthSatellite list \<Rightarrow> (string \<rightharpoonup> EarthSatellite)" where
  "store_satellites m [] = m"
| "store_satellites m (sat # sats) = store_satellites (m(name sat \<mapsto> sat)) sats"

text \<open>
  \<^verbatim>\<open>load_tle_file\<close> returns the dictionary of the satellites of this file and
  updates \<^verbatim>\<open>self.satellites\<close>; an exception of the reader leaves the predictor
  as it was.
\<close>

definition load_tle_file ::
  "tle_reader \<Rightarrow> SatelliteOrbitPredictor \<Rightarrow> string
     \<Rightarrow> (exn + (string \<rightharpoonup> EarthSatellite)) \<times> SatelliteOrbitPredictor" where
  "load_tle_file tle_file self tle_filepath =
     (case tle_file tle_filepath of
        Inl e \<Rightarrow> (Inl e, self)
      | Inr sats \<Rightarrow>
          (Inr (store_satellites Map.empty sats),
           self\<lparr>satellites := store_satellites (satellites self) sats\<rparr>))"

definition not_found :: "string \<Rightarrow> exn" where
  "not_found satellite_name =
     ValueError (''Satellite '' @ [CHR 0x27] @ satellite_name @ [CHR 0x27] @ '' not found'')"

definition predict_position ::
  "propagator \<Rightarrow> SatelliteOrbitPredictor \<Rightarrow> string \<Rightarrow> real \<Rightarrow> exn + vec3" where
  "predict_position sat_at self satellite_name time_utc =
     (case satellites self satellite_name of
        None \<Rightarrow> Inl (not_found satellite_name)
      | Some satellite \<Rightarrow> sat_at satellite (utc time_utc))"

text \<open>
  \<^verbatim>\<open>np.linspace(start, stop, num)\<close>: \<open>num\<close> equally spaced values from
  \<open>start\<close> to \<open>stop\<close>, both included; a negative \<open>num\<close> raises.
\<close>

definition linspace :: "real \<Rightarrow> real \<Rightarrow> int \<Rightarrow> exn + real list" where
  "linspace start stop num =
     (if num < 0 then
        Inl (ValueError (''Number of samples, '' @ show_int num @ '', must be non-negative.''))
      else if num = 1 then Inr [start]
      else Inr (map (\<lambda>i. start + real i * ((stop - start) / real_of_int (num - 1)))
                  [0..<nat num]))"

text \<open>The loop over \<^verbatim>\<open>time_deltas\<close>; the first exception of the library ends it.\<close>

fun positions_loop :: "propagator \<Rightarrow> EarthSatellite \<Rightarrow> real \<Rightarrow> real list \<Rightarrow> exn + vec3 list" where
  "positions_loop sat_at satellite start_time [] = Inr []"
| "positions_loop sat_at satellite start_time (delta # deltas) =
     (case sat_at satellite (utc (start_time + timedelta_hours delta)) of
        Inl e \<Rightarrow> Inl e
      | Inr p \<Rightarrow>
          (case positions_loop sat_at satellite start_time deltas of
             Inl e \<Rightarrow> Inl e
           | Inr ps \<Rightarrow> Inr (p # ps)))"

text \<open>
  \<^verbatim>\<open>positions[:, 0]\<close> of an array built from an empty list raises: the array has one
  dimension only.
\<close>

definition columns :: "vec3 list \<Rightarrow> exn + path" where
  "columns positions =
     (if positions = [] then
        Inl (IndexError
          ''too many indices for array: array is 1-dimensional, but 2 were indexed'')
      else Inr (map fst positions, map (\<lambda>p. fst (snd p)) positions,
                map (\<lambda>p. snd (snd p)) positions))"

text \<open>
  \<open>now\<close> is the value \<^verbatim>\<open>datetime.utcnow()\<close> returns inside the call.
\<close>

definition generate_orbit_path ::
  "propagator \<Rightarrow> SatelliteOrbitPredictor \<Rightarrow> real \<Rightarrow> string \<Rightarrow> real \<Rightarrow> int \<Rightarrow> exn + path" where
  "generate_orbit_path sat_at self now satellite_name duration_hours points =
     (case satellites self satellite_name of
        None \<Rightarrow> Inl (not_found satellite_name)
      | Some satellite \<Rightarrow>
          (case linspace 0 duration_hours points of
             Inl e \<Rightarrow> Inl e
           | Inr time_deltas \<Rightarrow>
               (case positions_loop sat_at satellite now time_deltas of
                  Inl e \<Rightarrow> Inl e
                | Inr positions \<Rightarrow> columns positions)))"

text \<open>
  The instants at which \<^verbatim>\<open>generate_orbit_path\<close> asks the library for a position,
  in seconds.
\<close>

definition sample_times :: "real \<Rightarrow> real \<Rightarrow> int \<Rightarrow> real list" where
  "sample_times now duration_hours points =
     (case linspace 0 duration_hours points of
        Inl e \<Rightarrow> []
      | Inr time_deltas \<Rightarrow> map (\<lambda>delta. utc (now + timedelta_hours delta)) time_deltas)"

section \<open>collision_detector.py\<close>

record CollisionDetector =
  warning_distance_km :: real
  earth_radius :: real

definition init_detector :: "real \<Rightarrow> CollisionDetector" where
  "init_detector w = \<lparr>warning_distance_km = w, earth_radius = 6371\<rparr>"

fun calculate_distance :: "vec3 \<Rightarrow> vec3 \<Rightarrow> real" where
  "calculate_distance (x1, y1, z1) (x2, y2, z2) =
     sqrt ((x2 - x1)\<^sup>2 + (y2 - y1)\<^sup>2 + (z2 - z1)\<^sup>2)"

text \<open>The values of the result dictionary.\<close>

datatype pyval =
    Str string
  | PyInt int
  | PyFloat real
  | DateTime real
  | Array "real list"
  | DateTimes "real list"

type_synonym pydict = "(string \<times> pyval) list"

definition out_of_bounds :: "nat \<Rightarrow> nat \<Rightarrow> exn" where
  "out_of_bounds i n =
     IndexError (''index '' @ show_nat i @ '' is out of bounds for axis 0 with size ''
                 @ show_nat n)"

text \<open>
  The loop \<^verbatim>\<open>for i in range(len(x1))\<close> that fills \<^verbatim>\<open>distances\<close> and
  \<^verbatim>\<open>times\<close>. Reading an array beyond its end raises, and so does the division by
  \<open>points = 0\<close>. \<open>position_at\<close> is the tuple \<^verbatim>\<open>(x[i], y[i], z[i])\<close>.
\<close>

fun position_at :: "path \<Rightarrow> nat \<Rightarrow> vec3" where
  "position_at (x, y, z) i = (x ! i, y ! i, z ! i)"

fun distance_loop ::
  "path \<Rightarrow> path \<Rightarrow> real \<Rightarrow> real \<Rightarrow> int \<Rightarrow> nat list \<Rightarrow> exn + (real list \<times> real list)" where
  "distance_loop p1 p2 start_time duration_hours points [] = Inr ([], [])"
| "distance_loop (x1, y1, z1) (x2, y2, z2) start_time duration_hours points (i # is) =
     (if length x1 \<le> i then Inl (out_of_bounds i (length x1))
      else if length y1 \<le> i then Inl (out_of_bounds i (length y1))
      else if length z1 \<le> i then Inl (out_of_bounds i (length z1))
      else if length x2 \<le> i then Inl (out_of_bounds i (length x2))
      else if length y2 \<le> i then Inl (out_of_bounds i (length y2))
      else if length z2 \<le> i then Inl (out_of_bounds i (length z2))
      else if points = 0 then Inl (ZeroDivisionError ''float division by zero'')
      else
        (case distance_loop (x1, y1, z1) (x2, y2, z2) start_time duration_hours points is of
           Inl e \<Rightarrow> Inl e
         | Inr (distances, times_list) \<Rightarrow>
             Inr (calculate_distance (position_at (x1, y1, z1) i) (position_at (x2, y2, z2) i)
                    # distances,
                  (start_time
                     + timedelta_hours (duration_hours * real i / real_of_int points))
                    # times_list)))"

text \<open>
  \<^verbatim>\<open>np.argmin\<close>: the first index of the least element; an empty array raises.
  \<open>argmin_from ds i b v\<close> scans \<open>ds\<close>, whose first element has index \<open>i\<close>, with
  the best index \<open>b\<close> and the best value \<open>v\<close> so far.
\<close>

fun argmin_from :: "real list \<Rightarrow> nat \<Rightarrow> nat \<Rightarrow> real \<Rightarrow> nat" where
  "argmin_from [] i b v = b"
| "argmin_from (d # ds) i b v =
     (if d < v then argmin_from ds (Suc i) i d else argmin_from ds (Suc i) b v)"

fun argmin :: "real list \<Rightarrow> exn + nat" where
  "argmin [] = Inl (ValueError ''attempt to get argmin of an empty sequence'')"
| "argmin (d # ds) = Inr (argmin_from ds 1 0 d)"

text \<open>\<^verbatim>\<open>np.where(distances < w)[0]\<close>: the indices whose distance is below \<open>w\<close>.\<close>

definition where_below :: "real list \<Rightarrow> real \<Rightarrow> nat list" where
  "where_below distances w = filter (\<lambda>i. distances ! i < w) [0..<length distances]"

text \<open>
  The relative velocity at the closest approach: for an interior index the magnitude of
  the change of distance between the two neighbours, divided by twice the step
  \<^verbatim>\<open>duration_hours / points\<close> in seconds; the integer 0 at the first and the last
  index. With \<^verbatim>\<open>duration_hours = 0\<close> the float division gives nan or inf, where the
  division of the reals gives 0; no property below depends on that value.
\<close>

definition relative_velocity_at ::"real list \<Rightarrow> nat \<Rightarrow> real \<Rightarrow> int \<Rightarrow> pyval" where
  "relative_velocity_at distances min_distance_idx duration_hours points =
     (if min_distance_idx > 0 \<and> int min_distance_idx < int (length distances) - 1 then
        (let dt = duration_hours / real_of_int points;
             dt_seconds = dt * 3600;
             dist_before = distances ! (min_distance_idx - 1);
             dist_after = distances ! (min_distance_idx + 1)
         in PyFloat (\<bar>dist_after - dist_before\<bar> / (2 * dt_seconds)))
      else PyInt 0)"

definition collision_risk :: "real \<Rightarrow> string" where
  "collision_risk min_distance =
     (if min_distance < 1 then ''HIGH'' else if min_distance < 5 then ''MEDIUM'' else ''LOW'')"

text \<open>
  The part of \<^verbatim>\<open>analyze_close_approach\<close> after the two paths are generated
  (from \<^verbatim>\<open>distances = []\<close> to the \<^verbatim>\<open>return\<close>); \<open>start_time\<close> is the
  value of \<^verbatim>\<open>datetime.utcnow()\<close> there. An exception here is not caught.
\<close>

definition close_approach ::
  "CollisionDetector \<Rightarrow> string \<Rightarrow> string \<Rightarrow> real \<Rightarrow> int \<Rightarrow> real \<Rightarrow> path \<Rightarrow> path
     \<Rightarrow> exn + pydict" where
  "close_approach self sat1_name sat2_name duration_hours points start_time p1 p2 =
     (case distance_loop p1 p2 start_time duration_hours points [0..<length (fst p1)] of
        Inl e \<Rightarrow> Inl e
      | Inr (distances, times_list) \<Rightarrow>
          (case argmin distances of
             Inl e \<Rightarrow> Inl e
           | Inr min_distance_idx \<Rightarrow>
               (let min_distance = distances ! min_distance_idx;
                    closest_time = times_list ! min_distance_idx;
                    warning_indices = where_below distances (warning_distance_km self);
                    relative_velocity =
                      relative_velocity_at distances min_distance_idx duration_hours points
                in Inr [(''satellite_1'', Str sat1_name),
                        (''satellite_2'', Str sat2_name),
                        (''min_distance_km'', PyFloat min_distance),
                        (''closest_approach_time'', DateTime closest_time),
                        (''relative_velocity_km_s'', relative_velocity),
                        (''collision_risk'', Str (collision_risk min_distance)),
                        (''warning_periods'', PyInt (int (length warning_indices))),
                        (''all_distances'', Array distances),
                        (''times'', DateTimes times_list)])))"

text \<open>
  The three readings of the clock: \<open>now1\<close> and \<open>now2\<close> inside the two calls of
  \<^verbatim>\<open>generate_orbit_path\<close>, \<open>now3\<close> for \<^verbatim>\<open>start_time\<close>.
\<close>

record clock =
  now1 :: real
  now2 :: real
  now3 :: real

text \<open>
  \<^verbatim>\<open>analyze_close_approach\<close>: the result (a dictionary, or an exception that
  leaves the method) and the detector after the call. The method assigns no field of
  \<^verbatim>\<open>self\<close>.
\<close>

definition analyze_close_approach ::
  "propagator \<Rightarrow> clock \<Rightarrow> CollisionDetector \<Rightarrow> SatelliteOrbitPredictor \<Rightarrow> string \<Rightarrow> string
     \<Rightarrow> real \<Rightarrow> int \<Rightarrow> (exn + pydict) \<times> CollisionDetector" where
  "analyze_close_approach sat_at clk self predictor sat1_name sat2_name duration_hours points =
     (case generate_orbit_path sat_at predictor (now1 clk) sat1_name duration_hours points of
        Inl e \<Rightarrow> (Inr [(''error'', Str (''Could not generate orbits: '' @ str_exn e))], self)
      | Inr p1 \<Rightarrow>
          (case generate_orbit_path sat_at predictor (now2 clk) sat2_name duration_hours points of
             Inl e \<Rightarrow>
               (Inr [(''error'', Str (''Could not generate orbits: '' @ str_exn e))], self)
           | Inr p2 \<Rightarrow>
               (close_approach self sat1_name sat2_name duration_hours points (now3 clk)
                  p1 p2,
                self)))"

section \<open>Notions used to state the properties\<close>

text \<open>
  A path as \<^verbatim>\<open>generate_orbit_path\<close> returns it: three arrays of the same length.
\<close>

fun wf_path :: "path \<Rightarrow> nat \<Rightarrow> bool" where
  "wf_path (x, y, z) n = (length x = n \<and> length y = n \<and> length z = n)"

text \<open>
  The distances of the first \<open>n\<close> paired samples of two paths, and the times the
  analysis attaches to them.
\<close>

definition pair_distances :: "path \<Rightarrow> path \<Rightarrow> nat \<Rightarrow> real list" where
  "pair_distances p1 p2 n =
     map (\<lambda>i. calculate_distance (position_at p1 i) (position_at p2 i)) [0..<n]"

definition attached_times :: "real \<Rightarrow> real \<Rightarrow> int \<Rightarrow> nat \<Rightarrow> real list" where
  "attached_times start_time duration_hours points n =
     map (\<lambda>i. start_time + timedelta_hours (duration_hours * real i / real_of_int points))
       [0..<n]"

text \<open>
  The central difference of the specification: the change of distance from sample
  \<open>i - 1\<close> to sample \<open>i + 1\<close>, divided by the time between these two samples.
\<close>

definition central_difference :: "real list \<Rightarrow> real list \<Rightarrow> nat \<Rightarrow> real" where
  "central_difference distances instants i =
     (distances ! (i + 1) - distances ! (i - 1)) / (instants ! (i + 1) - instants ! (i - 1))"

section \<open>A small catalog and a stand-in for the library\<close>

definition sat_a :: EarthSatellite where
  "sat_a = \<lparr>name = ''A'', satnum = 1, epoch = 0\<rparr>"

definition sat_b :: EarthSatellite where
  "sat_b = \<lparr>name = ''B'', satnum = 2, epoch = 0\<rparr>"

text \<open>
  Satellite A moves on the x axis and is 100, 50, 2, 60 and 120 km from the origin at the
  hours 0 to 4; every other satellite stays at the origin.
\<close>

definition demo_at :: propagator where
  "demo_at sat t =
     Inr (if name sat = ''A'' then
            (if t = 0 then 100 else if t = 3600 then 50 else if t = 7200 then 2
             else if t = 10800 then 60 else 120)
          else 0, 0, 0)"

definition demo_tle_file :: tle_reader where
  "demo_tle_file path =
     (if path = ''a.tle'' then Inr [sat_a]
      else if path = ''b.tle'' then Inr [sat_b]
      else Inl (LibraryError ''file not found''))"

definition demo_predictor :: SatelliteOrbitPredictor where
  "demo_predictor = \<lparr>satellites = [''A'' \<mapsto> sat_a, ''B'' \<mapsto> sat_b]\<rparr>"

definition demo_clock :: clock where
  "demo_clock = \<lparr>now1 = 0, now2 = 0, now3 = 0\<rparr>"

definition late_clock :: clock where
  "late_clock = \<lparr>now1 = 0, now2 = 1, now3 = 1\<rparr>"

text \<open>
  The dictionary the analysis of A against B returns over 4 hours with 5 points, when
  every reading of the clock is 0 and the warning distance is 10 km.
\<close>

definition demo_result :: pydict where
  "demo_result =
     [(''satellite_1'', Str ''A''),
      (''satellite_2'', Str ''B''),
      (''min_distance_km'', PyFloat 2),
      (''closest_approach_time'', DateTime 5760),
      (''relative_velocity_km_s'', PyFloat (1 / 576)),
      (''collision_risk'', Str ''MEDIUM''),
      (''warning_periods'', PyInt 1),
      (''all_distances'', Array [100, 50, 2, 60, 120]),
      (''times'', DateTimes [0, 2880, 5760, 8640, 11520])]"

text \<open>
  The same analysis when the second path is generated, and the analysis started, one
  second later.
\<close>

definition late_result :: pydict where
  "late_result =
     [(''satellite_1'', Str ''A''),
      (''satellite_2'', Str ''B''),
      (''min_distance_km'', PyFloat 2),
      (''closest_approach_time'', DateTime 5761),
      (''relative_velocity_km_s'', PyFloat (1 / 576)),
      (''collision_risk'', Str ''MEDIUM''),
      (''warning_periods'', PyInt 1),
      (''all_distances'', Array [100, 50, 2, 60, 120]),
      (''times'', DateTimes [1, 2881, 5761, 8641, 11521])]"

text \<open>The catalog after loading the file of A, and after loading the file of B next.\<close>

definition catalog_a :: SatelliteOrbitPredictor where
  "catalog_a = snd (load_tle_file demo_tle_file init_predictor ''a.tle'')"

definition catalog_a_b :: SatelliteOrbitPredictor where
  "catalog_a_b = snd (load_tle_file demo_tle_file catalog_a ''b.tle'')"

section \<open>Properties of the model\<close>

subsection \<open>Distances, loops and paths\<close>

lemma calculate_distance_sym: "calculate_distance p q = calculate_distance q p"
  by (cases p; cases q) (simp add: power2_commute)


lemma calculate_distance_nonneg: "0 \<le> calculate_distance p q"
  by (cases p; cases q) simp

lemma distance_loop_wf:
  assumes "wf_path p1 n" "wf_path p2 n" "\<forall>i \<in> set is. i < n" "points \<noteq> 0"
  shows "distance_loop p1 p2 st dur points is =
           Inr (map (\<lambda>i. calculate_distance (position_at p1 i) (position_at p2 i)) is,
                map (\<lambda>i. st + timedelta_hours (dur * real i / real_of_int points)) is)"
  using assms
proof (induction "is")
  case Nil
  then show ?case by simp
next
  case (Cons i "is")
  obtain x1 y1 z1 where p1: "p1 = (x1, y1, z1)" by (cases p1)
  obtain x2 y2 z2 where p2: "p2 = (x2, y2, z2)" by (cases p2)
  from Cons show ?case unfolding p1 p2 by simp
qed


lemma length_where_below:
  "length (where_below ds w) = card {i. i < length ds \<and> ds ! i < w}"
proof -
  have "distinct (where_below ds w)" by (simp add: where_below_def)
  then have "length (where_below ds w) = card (set (where_below ds w))"
    by (simp add: distinct_card)
  also have "set (where_below ds w) = {i. i < length ds \<and> ds ! i < w}"
    by (auto simp: where_below_def)
  finally show ?thesis .
qed

lemma positions_loop_length:
  "positions_loop sat_at sat st deltas = Inr ps \<Longrightarrow> length ps = length deltas"
  by (induction deltas arbitrary: ps) (auto split: sum.splits)

lemma linspace_length: "linspace a b num = Inr ds \<Longrightarrow> length ds = nat num"
  by (auto simp: linspace_def split: if_splits)

lemma linspace_nonneg: "linspace a b num = Inr ds \<Longrightarrow> 0 \<le> num"
  by (auto simp: linspace_def split: if_splits)

lemma generate_orbit_path_wf:
  assumes "generate_orbit_path sat_at self now nm dur points = Inr p"
  shows "wf_path p (nat points) \<and> 0 < points"
proof -
  from assms obtain sat deltas ps where
    l: "linspace 0 dur points = Inr deltas" and
    ps: "positions_loop sat_at sat now deltas = Inr ps" and
    c: "columns ps = Inr p"
    by (auto simp: generate_orbit_path_def split: option.splits sum.splits)
  from c have ne: "ps \<noteq> []" and p: "p = (map fst ps, map (\<lambda>p. fst (snd p)) ps, map (\<lambda>p. snd (snd p)) ps)"
    by (auto simp: columns_def split: if_splits)
  have len: "length ps = nat points"
    using positions_loop_length [OF ps] linspace_length [OF l] by simp
  with ne have "0 < points" by (cases "0 < points") auto
  with len p show ?thesis by simp
qed

lemma close_approach_wf:
  assumes "wf_path p1 n" "wf_path p2 n" "0 < n" "points \<noteq> 0"
  shows "\<exists>k. argmin (pair_distances p1 p2 n) = Inr k \<and>
     close_approach self s1 s2 dur points st p1 p2 =
       Inr [(''satellite_1'', Str s1),
            (''satellite_2'', Str s2),
            (''min_distance_km'', PyFloat (pair_distances p1 p2 n ! k)),
            (''closest_approach_time'', DateTime (attached_times st dur points n ! k)),
            (''relative_velocity_km_s'',
               relative_velocity_at (pair_distances p1 p2 n) k dur points),
            (''collision_risk'', Str (collision_risk (pair_distances p1 p2 n ! k))),
            (''warning_periods'',
               PyInt (int (length (where_below (pair_distances p1 p2 n)
                                     (warning_distance_km self))))),
            (''all_distances'', Array (pair_distances p1 p2 n)),
            (''times'', DateTimes (attached_times st dur points n))]"
proof -
  have len: "length (fst p1) = n" using assms(1) by (cases p1) auto
  have loop: "distance_loop p1 p2 st dur points [0..<n] =
                Inr (pair_distances p1 p2 n, attached_times st dur points n)"
    unfolding pair_distances_def attached_times_def
    using assms(1,2,4) by (intro distance_loop_wf) auto
  from \<open>0 < n\<close> have "pair_distances p1 p2 n \<noteq> []" by (simp add: pair_distances_def)
  then obtain k where k: "argmin (pair_distances p1 p2 n) = Inr k"
    by (cases "pair_distances p1 p2 n") auto
  show ?thesis
    using k loop len by (intro exI [of _ k]) (simp add: close_approach_def Let_def)
qed

lemma analyze_close_approach_ok:
  assumes "generate_orbit_path sat_at predictor (now1 clk) s1 dur points = Inr p1"
    and "generate_orbit_path sat_at predictor (now2 clk) s2 dur points = Inr p2"
  shows "analyze_close_approach sat_at clk self predictor s1 s2 dur points =
           (close_approach self s1 s2 dur points (now3 clk) p1 p2, self)
         \<and> wf_path p1 (nat points) \<and> wf_path p2 (nat points) \<and> 0 < points"
  using assms generate_orbit_path_wf [OF assms(1)] generate_orbit_path_wf [OF assms(2)]
  by (simp add: analyze_close_approach_def)

lemma demo_path_a:
  "generate_orbit_path demo_at demo_predictor 0 ''A'' 4 5 =
     Inr ([100, 50, 2, 60, 120], [0, 0, 0, 0, 0], [0, 0, 0, 0, 0])"
  by (simp add: generate_orbit_path_def demo_predictor_def linspace_def upt_rec
      timedelta_hours_def utc_def demo_at_def sat_a_def columns_def)

lemma demo_path_b:
  "generate_orbit_path demo_at demo_predictor t ''B'' 4 5 =
     Inr ([0, 0, 0, 0, 0], [0, 0, 0, 0, 0], [0, 0, 0, 0, 0])"
  by (simp add: generate_orbit_path_def demo_predictor_def linspace_def upt_rec
      timedelta_hours_def utc_def demo_at_def sat_b_def columns_def)

lemma demo_distances:
  "pair_distances ([100, 50, 2, 60, 120], [0, 0, 0, 0, 0], [0, 0, 0, 0, 0])
     ([0, 0, 0, 0, 0], [0, 0, 0, 0, 0], [0, 0, 0, 0, 0]) 5 = [100, 50, 2, 60, 120]"
  by (simp add: pair_distances_def upt_rec)

lemma demo_close_approach:
  "close_approach self s1 s2 dur 5 st
     ([100, 50, 2, 60, 120], [0, 0, 0, 0, 0], [0, 0, 0, 0, 0])
     ([0, 0, 0, 0, 0], [0, 0, 0, 0, 0], [0, 0, 0, 0, 0]) =
   Inr [(''satellite_1'', Str s1),
        (''satellite_2'', Str s2),
        (''min_distance_km'', PyFloat 2),
        (''closest_approach_time'', DateTime (st + timedelta_hours (dur * 2 / 5))),
        (''relative_velocity_km_s'', PyFloat (10 / (2 * (dur / 5 * 3600)))),
        (''collision_risk'', Str ''MEDIUM''),
        (''warning_periods'',
           PyInt (int (length (where_below [100, 50, 2, 60, 120] (warning_distance_km self))))),
        (''all_distances'', Array [100, 50, 2, 60, 120]),
        (''times'', DateTimes (attached_times st dur 5 5))]"
proof -
  let ?a = "([100, 50, 2, 60, 120], [0, 0, 0, 0, 0], [0, 0, 0, 0, 0]) :: path"
  let ?b = "([0, 0, 0, 0, 0], [0, 0, 0, 0, 0], [0, 0, 0, 0, 0]) :: path"
  have wa: "wf_path ?a 5" and wb: "wf_path ?b 5" by simp_all
  have am: "argmin [100, 50, 2, 60, 120] = Inr 2" by simp
  have at: "attached_times st dur 5 5 ! 2 = st + timedelta_hours (dur * 2 / 5)"
    by (simp add: attached_times_def upt_rec)
  have rv: "relative_velocity_at [100, 50, 2, 60, 120] 2 dur 5 = PyFloat (10 / (2 * (dur / 5 * 3600)))"
    by (simp add: relative_velocity_at_def Let_def)
  from close_approach_wf [OF wa wb, of 5 self s1 s2 dur st]
  obtain k where k: "argmin (pair_distances ?a ?b 5) = Inr k"
    and ca: "close_approach self s1 s2 dur 5 st ?a ?b =
       Inr [(''satellite_1'', Str s1),
            (''satellite_2'', Str s2),
            (''min_distance_km'', PyFloat (pair_distances ?a ?b 5 ! k)),
            (''closest_approach_time'', DateTime (attached_times st dur 5 5 ! k)),
            (''relative_velocity_km_s'',
               relative_velocity_at (pair_distances ?a ?b 5) k dur 5),
            (''collision_risk'', Str (collision_risk (pair_distances ?a ?b 5 ! k))),
            (''warning_periods'',
               PyInt (int (length (where_below (pair_distances ?a ?b 5)
                                     (warning_distance_km self))))),
            (''all_distances'', Array (pair_distances ?a ?b 5)),
            (''times'', DateTimes (attached_times st dur 5 5))]"
    by auto
  from k have k2: "k = 2" unfolding demo_distances am by simp
  have md: "[100, 50, 2, 60, 120 :: real] ! 2 = 2" by simp
  have cr: "collision_risk 2 = ''MEDIUM''" by (simp add: collision_risk_def)
  show ?thesis
    unfolding ca k2 demo_distances at rv md cr by (rule refl)
qed

lemma demo_analysis:
  "analyze_close_approach demo_at demo_clock (init_detector 10) demo_predictor ''A'' ''B'' 4 5 =
     (Inr demo_result,
      init_detector 10)"
proof -
  have g1: "generate_orbit_path demo_at demo_predictor (now1 demo_clock) ''A'' 4 5 =
              Inr ([100, 50, 2, 60, 120], [0, 0, 0, 0, 0], [0, 0, 0, 0, 0])"
    using demo_path_a by (simp add: demo_clock_def)
  have w: "where_below [100, 50, 2, 60, 120] (warning_distance_km (init_detector 10)) = [2]"
    by (simp add: where_below_def init_detector_def upt_rec)
  have t: "attached_times (now3 demo_clock) 4 5 5 = [0, 2880, 5760, 8640, 11520]"
    by (simp add: attached_times_def demo_clock_def timedelta_hours_def upt_rec)
  show ?thesis
    using analyze_close_approach_ok [OF g1 demo_path_b]
    by (simp add: demo_close_approach w t demo_result_def)
      (simp add: timedelta_hours_def demo_clock_def)
qed

lemma pair_distances_sym: "pair_distances p2 p1 n = pair_distances p1 p2 n"
  by (simp add: pair_distances_def calculate_distance_sym [of "position_at p2 _"])



lemma pair_distances_nth:
  "i < n \<Longrightarrow> pair_distances p1 p2 n ! i = calculate_distance (position_at p1 i) (position_at p2 i)"
  by (simp add: pair_distances_def)


lemma analyze_close_approach_error:
  assumes "generate_orbit_path sat_at predictor (now1 clk) s1 dur points = Inl e \<or>
           (\<exists>p1. generate_orbit_path sat_at predictor (now1 clk) s1 dur points = Inr p1 \<and>
                 generate_orbit_path sat_at predictor (now2 clk) s2 dur points = Inl e)"
  shows "analyze_close_approach sat_at clk self predictor s1 s2 dur points =
           (Inr [(''error'', Str (''Could not generate orbits: '' @ str_exn e))], self)"
  using assms by (auto simp: analyze_close_approach_def)

lemma generate_orbit_path_unknown:
  "satellites predictor nm = None \<Longrightarrow>
     generate_orbit_path sat_at predictor now nm dur points = Inl (not_found nm)"
  by (simp add: generate_orbit_path_def)

lemma late_analysis:
  "analyze_close_approach demo_at late_clock (init_detector 10) demo_predictor ''A'' ''B'' 4 5 =
     (Inr late_result, init_detector 10)"
proof -
  have g1: "generate_orbit_path demo_at demo_predictor (now1 late_clock) ''A'' 4 5 =
              Inr ([100, 50, 2, 60, 120], [0, 0, 0, 0, 0], [0, 0, 0, 0, 0])"
    using demo_path_a by (simp add: late_clock_def)
  have w: "where_below [100, 50, 2, 60, 120] (warning_distance_km (init_detector 10)) = [2]"
    by (simp add: where_below_def init_detector_def upt_rec)
  have t: "attached_times (now3 late_clock) 4 5 5 = [1, 2881, 5761, 8641, 11521]"
    by (simp add: attached_times_def late_clock_def timedelta_hours_def upt_rec)
  show ?thesis
    using analyze_close_approach_ok [OF g1 demo_path_b]
    by (simp add: demo_close_approach w t late_result_def)
      (simp add: timedelta_hours_def late_clock_def)
qed

lemma demo_sample_times:
  "sample_times 0 4 5 = [0, 3600, 7200, 10800, 14400]"
  "sample_times 1 4 5 = [1, 3601, 7201, 10801, 14401]"
  by (simp_all add: sample_times_def linspace_def upt_rec timedelta_hours_def utc_def)

lemma positions_loop_sample_times:
  "positions_loop sat_at sat now deltas = Inr ps \<Longrightarrow>
     map Inr ps = map (sat_at sat) (map (\<lambda>delta. utc (now + timedelta_hours delta)) deltas)"
  by (induction deltas arbitrary: ps) (auto split: sum.splits)

lemma store_satellites_other:
  "nm \<notin> name ` set sats \<Longrightarrow> store_satellites m sats nm = m nm"
  by (induction sats arbitrary: m) auto

lemma store_satellites_in:
  "nm \<in> name ` set sats \<Longrightarrow>
     \<exists>sat \<in> set sats. name sat = nm \<and> store_satellites m sats nm = Some sat"
proof (induction sats arbitrary: m)
  case Nil
  then show ?case by simp
next
  case (Cons s sats)
  show ?case
  proof (cases "nm \<in> name ` set sats")
    case True
    from Cons.IH [OF True, of "m(name s \<mapsto> s)"]
    obtain sat where "sat \<in> set sats" "name sat = nm"
      "store_satellites (m(name s \<mapsto> s)) sats nm = Some sat"
      by blast
    then show ?thesis by (intro bexI [of _ sat]) simp_all
  next
    case False
    with Cons.prems have "name s = nm" by auto
    with False show ?thesis by (simp add: store_satellites_other)
  qed
qed

lemma catalog_a_satellites: "satellites catalog_a = [''A'' \<mapsto> sat_a]"
  by (simp add: catalog_a_def load_tle_file_def demo_tle_file_def init_predictor_def sat_a_def)

lemma catalog_a_b_satellites: "satellites catalog_a_b = [''A'' \<mapsto> sat_a, ''B'' \<mapsto> sat_b]"
  by (simp add: catalog_a_b_def load_tle_file_def demo_tle_file_def catalog_a_satellites
      sat_b_def)

subsection \<open>Risk classification\<close>

text \<open>
  C1. A result of the analysis that has no \<^verbatim>\<open>error\<close> key carries the risk that the
  fixed thresholds give for its minimum distance: HIGH below 1 km, MEDIUM from 1 km and
  below 5 km, LOW otherwise. For two paths of five samples whose distances are
  100, 50, 2, 60 and 120 km, the minimum is 2 km, found at index 2 (so the closest time is
  the time attached to sample 2), and the risk is MEDIUM.
\<close>

theorem risk_thresholds:
  "(fst (analyze_close_approach sat_at clk self predictor s1 s2 dur points) = Inr d \<longrightarrow>
    map_of d ''error'' = None \<longrightarrow>
      (\<exists>m. map_of d ''min_distance_km'' = Some (PyFloat m) \<and>
           map_of d ''collision_risk'' =
             Some (Str (if m < 1 then ''HIGH'' else if m < 5 then ''MEDIUM'' else ''LOW''))))
   \<and> (\<exists>r. close_approach self s1 s2 dur 5 st
              ([100, 50, 2, 60, 120], [0, 0, 0, 0, 0], [0, 0, 0, 0, 0])
              ([0, 0, 0, 0, 0], [0, 0, 0, 0, 0], [0, 0, 0, 0, 0]) = Inr r \<and>
           map_of r ''all_distances'' = Some (Array [100, 50, 2, 60, 120]) \<and>
           argmin [100, 50, 2, 60, 120] = Inr 2 \<and>
           map_of r ''min_distance_km'' = Some (PyFloat 2) \<and>
           map_of r ''closest_approach_time'' =
             Some (DateTime (st + timedelta_hours (dur * 2 / 5))) \<and>
           map_of r ''collision_risk'' = Some (Str ''MEDIUM''))"
proof (intro conjI impI)
  assume res: "fst (analyze_close_approach sat_at clk self predictor s1 s2 dur points) = Inr d"
    and noerr: "map_of d ''error'' = None"
  from res noerr obtain p1 p2 where
    g1: "generate_orbit_path sat_at predictor (now1 clk) s1 dur points = Inr p1" and
    g2: "generate_orbit_path sat_at predictor (now2 clk) s2 dur points = Inr p2"
    by (auto simp: analyze_close_approach_def split: sum.splits)
  from analyze_close_approach_ok [OF g1 g2, of self] res
  have ca: "close_approach self s1 s2 dur points (now3 clk) p1 p2 = Inr d"
    and w1: "wf_path p1 (nat points)" and w2: "wf_path p2 (nat points)" and pos: "0 < points"
    by simp_all
  from pos have "0 < nat points" "points \<noteq> 0" by simp_all
  from close_approach_wf [OF w1 w2 this, of self s1 s2 dur "now3 clk"] ca
  obtain k where
    "d = [(''satellite_1'', Str s1),
          (''satellite_2'', Str s2),
          (''min_distance_km'', PyFloat (pair_distances p1 p2 (nat points) ! k)),
          (''closest_approach_time'', DateTime (attached_times (now3 clk) dur points (nat points) ! k)),
          (''relative_velocity_km_s'',
             relative_velocity_at (pair_distances p1 p2 (nat points)) k dur points),
          (''collision_risk'', Str (collision_risk (pair_distances p1 p2 (nat points) ! k))),
          (''warning_periods'',
             PyInt (int (length (where_below (pair_distances p1 p2 (nat points))
                                   (warning_distance_km self))))),
          (''all_distances'', Array (pair_distances p1 p2 (nat points))),
          (''times'', DateTimes (attached_times (now3 clk) dur points (nat points)))]"
    by auto
  then show "\<exists>m. map_of d ''min_distance_km'' = Some (PyFloat m) \<and>
           map_of d ''collision_risk'' =
             Some (Str (if m < 1 then ''HIGH'' else if m < 5 then ''MEDIUM'' else ''LOW''))"
    by (simp add: collision_risk_def)
next
  show "\<exists>r. close_approach self s1 s2 dur 5 st
              ([100, 50, 2, 60, 120], [0, 0, 0, 0, 0], [0, 0, 0, 0, 0])
              ([0, 0, 0, 0, 0], [0, 0, 0, 0, 0], [0, 0, 0, 0, 0]) = Inr r \<and>
           map_of r ''all_distances'' = Some (Array [100, 50, 2, 60, 120]) \<and>
           argmin [100, 50, 2, 60, 120] = Inr 2 \<and>
           map_of r ''min_distance_km'' = Some (PyFloat 2) \<and>
           map_of r ''closest_approach_time'' =
             Some (DateTime (st + timedelta_hours (dur * 2 / 5))) \<and>
           map_of r ''collision_risk'' = Some (Str ''MEDIUM'')"
    by (simp add: demo_close_approach)
qed

theorem risk_thresholds_witness:
  "fst (analyze_close_approach demo_at demo_clock (init_detector 10) demo_predictor
          ''A'' ''B'' 4 5) = Inr demo_result
   \<and> map_of demo_result ''error'' = None
   \<and> map_of demo_result ''min_distance_km'' = Some (PyFloat 2)
   \<and> map_of demo_result ''collision_risk'' = Some (Str ''MEDIUM'')"
  using risk_thresholds [of demo_at demo_clock "init_detector 10" demo_predictor
      "''A''" "''B''" 4 5 demo_result]
    demo_analysis
  by (simp add: demo_result_def)

subsection \<open>Warning count\<close>

text \<open>
  C7. When both paths are generated, the analysis returns a dictionary whose
  \<^verbatim>\<open>warning_periods\<close> is the number of sample indices at which the distance between
  the two positions is strictly below the warning distance of the detector; with a
  warning distance of 0 the count is 0, whatever the two paths are.
\<close>

theorem warning_count:
  assumes "generate_orbit_path sat_at predictor (now1 clk) s1 dur points = Inr p1"
    and "generate_orbit_path sat_at predictor (now2 clk) s2 dur points = Inr p2"
  shows "\<exists>d. fst (analyze_close_approach sat_at clk self predictor s1 s2 dur points) = Inr d \<and>
           map_of d ''warning_periods'' =
             Some (PyInt (int (card {i. i < nat points \<and>
                calculate_distance (position_at p1 i) (position_at p2 i)
                  < warning_distance_km self}))) \<and>
           (warning_distance_km self = 0 \<longrightarrow> map_of d ''warning_periods'' = Some (PyInt 0))"
proof -
  let ?n = "nat points"
  let ?ds = "pair_distances p1 p2 ?n"
  let ?w = "warning_distance_km self"
  from analyze_close_approach_ok [OF assms, of self]
  have an: "fst (analyze_close_approach sat_at clk self predictor s1 s2 dur points) =
              close_approach self s1 s2 dur points (now3 clk) p1 p2"
    and w1: "wf_path p1 ?n" and w2: "wf_path p2 ?n" and pos: "0 < points"
    by simp_all
  from pos have "0 < ?n" "points \<noteq> 0" by simp_all
  from close_approach_wf [OF w1 w2 this, of self s1 s2 dur "now3 clk"]
  obtain d where ca: "close_approach self s1 s2 dur points (now3 clk) p1 p2 = Inr d"
    and wp: "map_of d ''warning_periods'' = Some (PyInt (int (length (where_below ?ds ?w))))"
    by auto
  have len: "length ?ds = ?n" by (simp add: pair_distances_def)
  have "{i. i < length ?ds \<and> ?ds ! i < ?w} =
        {i. i < ?n \<and> calculate_distance (position_at p1 i) (position_at p2 i) < ?w}"
    using len by (auto simp: pair_distances_nth)
  then have cnt: "length (where_below ?ds ?w) =
      card {i. i < ?n \<and> calculate_distance (position_at p1 i) (position_at p2 i) < ?w}"
    by (simp add: length_where_below)
  have zero: "?w = 0 \<Longrightarrow> where_below ?ds ?w = []"
    by (auto simp: where_below_def filter_empty_conv pair_distances_nth len
        not_less calculate_distance_nonneg)
  show ?thesis
    using an ca wp cnt zero by (intro exI [of _ d]) auto
qed

theorem warning_count_witness:
  "generate_orbit_path demo_at demo_predictor (now1 demo_clock) ''A'' 4 5 =
     Inr ([100, 50, 2, 60, 120], [0, 0, 0, 0, 0], [0, 0, 0, 0, 0])
   \<and> generate_orbit_path demo_at demo_predictor (now2 demo_clock) ''B'' 4 5 =
     Inr ([0, 0, 0, 0, 0], [0, 0, 0, 0, 0], [0, 0, 0, 0, 0])
   \<and> warning_distance_km (init_detector 0) = 0
   \<and> map_of (projr (fst (analyze_close_approach demo_at demo_clock (init_detector 0)
                             demo_predictor ''A'' ''B'' 4 5))) ''warning_periods''
       = Some (PyInt 0)"
proof -
  have g1: "generate_orbit_path demo_at demo_predictor (now1 demo_clock) ''A'' 4 5 =
              Inr ([100, 50, 2, 60, 120], [0, 0, 0, 0, 0], [0, 0, 0, 0, 0])"
    using demo_path_a by (simp add: demo_clock_def)
  have w0: "warning_distance_km (init_detector 0) = 0" by (simp add: init_detector_def)
  from warning_count [OF g1 demo_path_b, of "init_detector 0"] w0
  obtain d where
    "fst (analyze_close_approach demo_at demo_clock (init_detector 0) demo_predictor
            ''A'' ''B'' 4 5) = Inr d"
    and "map_of d ''warning_periods'' = Some (PyInt 0)"
    by auto
  with g1 demo_path_b w0 show ?thesis by simp
qed

subsection \<open>A path against itself\<close>



subsection \<open>Symmetry\<close>

text \<open>
  C5. For two paths of the same positive length, the analysis of the first against the
  second and the analysis of the second against the first return dictionaries that
  differ in the two labels \<^verbatim>\<open>satellite_1\<close> and \<^verbatim>\<open>satellite_2\<close> only, which
  are swapped: every other entry, in particular the minimum distance and the risk, is
  the same, for every warning distance of the detector.
\<close>

theorem analysis_symmetric:
  assumes "wf_path p1 n" "wf_path p2 n" "0 < n" "points \<noteq> 0"
  shows "\<exists>d d'. close_approach self a b dur points st p1 p2 = Inr d \<and>
           close_approach self b a dur points st p2 p1 = Inr d' \<and>
           take 2 d = [(''satellite_1'', Str a), (''satellite_2'', Str b)] \<and>
           take 2 d' = [(''satellite_1'', Str b), (''satellite_2'', Str a)] \<and>
           drop 2 d' = drop 2 d \<and>
           map_of d' ''min_distance_km'' = map_of d ''min_distance_km'' \<and>
           map_of d' ''collision_risk'' = map_of d ''collision_risk''"
proof -
  from close_approach_wf [OF assms, of self a b dur st]
  obtain d k where k: "argmin (pair_distances p1 p2 n) = Inr k"
    and d: "close_approach self a b dur points st p1 p2 = Inr d"
    and dd: "d = [(''satellite_1'', Str a),
            (''satellite_2'', Str b),
            (''min_distance_km'', PyFloat (pair_distances p1 p2 n ! k)),
            (''closest_approach_time'', DateTime (attached_times st dur points n ! k)),
            (''relative_velocity_km_s'',
               relative_velocity_at (pair_distances p1 p2 n) k dur points),
            (''collision_risk'', Str (collision_risk (pair_distances p1 p2 n ! k))),
            (''warning_periods'',
               PyInt (int (length (where_below (pair_distances p1 p2 n)
                                     (warning_distance_km self))))),
            (''all_distances'', Array (pair_distances p1 p2 n)),
            (''times'', DateTimes (attached_times st dur points n))]"
    by auto
  from close_approach_wf [OF assms(2) assms(1) assms(3,4), of self b a dur st]
  obtain d' k' where k': "argmin (pair_distances p1 p2 n) = Inr k'"
    and d': "close_approach self b a dur points st p2 p1 = Inr d'"
    and dd': "d' = [(''satellite_1'', Str b),
            (''satellite_2'', Str a),
            (''min_distance_km'', PyFloat (pair_distances p1 p2 n ! k')),
            (''closest_approach_time'', DateTime (attached_times st dur points n ! k')),
            (''relative_velocity_km_s'',
               relative_velocity_at (pair_distances p1 p2 n) k' dur points),
            (''collision_risk'', Str (collision_risk (pair_distances p1 p2 n ! k'))),
            (''warning_periods'',
               PyInt (int (length (where_below (pair_distances p1 p2 n)
                                     (warning_distance_km self))))),
            (''all_distances'', Array (pair_distances p1 p2 n)),
            (''times'', DateTimes (attached_times st dur points n))]"
    unfolding pair_distances_sym [of p2 p1] by auto
  from k k' have "k' = k" by simp
  with d d' dd dd' show ?thesis by simp
qed

theorem analysis_symmetric_witness:
  "wf_path ([100, 50, 2, 60, 120], [0, 0, 0, 0, 0], [0, 0, 0, 0, 0]) 5
   \<and> wf_path ([0, 0, 0, 0, 0], [0, 0, 0, 0, 0], [0, 0, 0, 0, 0]) 5
   \<and> (0::nat) < 5 \<and> (5::int) \<noteq> 0
   \<and> map_of (projr (close_approach (init_detector 10) ''B'' ''A'' 4 5 0
                      ([0, 0, 0, 0, 0], [0, 0, 0, 0, 0], [0, 0, 0, 0, 0])
                      ([100, 50, 2, 60, 120], [0, 0, 0, 0, 0], [0, 0, 0, 0, 0])))
        ''min_distance_km'' = Some (PyFloat 2)"
proof -
  let ?a = "([100, 50, 2, 60, 120], [0, 0, 0, 0, 0], [0, 0, 0, 0, 0]) :: path"
  let ?b = "([0, 0, 0, 0, 0], [0, 0, 0, 0, 0], [0, 0, 0, 0, 0]) :: path"
  have wa: "wf_path ?a 5" and wb: "wf_path ?b 5" and n: "(0::nat) < 5" and p: "(5::int) \<noteq> 0"
    by simp_all
  from analysis_symmetric [OF wa wb n p, of "init_detector 10" "''A''" "''B''" 4 0]
  obtain d d' where "close_approach (init_detector 10) ''A'' ''B'' 4 5 0 ?a ?b = Inr d"
    and "close_approach (init_detector 10) ''B'' ''A'' 4 5 0 ?b ?a = Inr d'"
    and "map_of d' ''min_distance_km'' = map_of d ''min_distance_km''"
    by blast
  then show ?thesis by (auto simp: demo_close_approach)
qed

subsection \<open>Failure of the path generation\<close>

text \<open>
  C10. When \<^verbatim>\<open>generate_orbit_path\<close> raises for the first or for the second name, the
  analysis raises nothing: it returns the dictionary whose only key is \<^verbatim>\<open>error\<close>,
  with the text of the exception after \<^verbatim>\<open>Could not generate orbits: \<close>, so none of
  the result fields is present, and the detector is as it was. A name that is not in the
  catalog is such a failure, in either position.
\<close>

theorem generation_failure_is_reported:
  "(generate_orbit_path sat_at predictor (now1 clk) s1 dur points = Inl e \<or>
    (\<exists>p1. generate_orbit_path sat_at predictor (now1 clk) s1 dur points = Inr p1 \<and>
          generate_orbit_path sat_at predictor (now2 clk) s2 dur points = Inl e) \<longrightarrow>
      analyze_close_approach sat_at clk self predictor s1 s2 dur points =
        (Inr [(''error'', Str (''Could not generate orbits: '' @ str_exn e))], self))
   \<and> (satellites predictor s1 = None \<longrightarrow>
      analyze_close_approach sat_at clk self predictor s1 s2 dur points =
        (Inr [(''error'', Str (''Could not generate orbits: '' @ str_exn (not_found s1)))],
         self))
   \<and> (satellites predictor s2 = None \<longrightarrow>
      (\<exists>e'. analyze_close_approach sat_at clk self predictor s1 s2 dur points =
        (Inr [(''error'', Str (''Could not generate orbits: '' @ str_exn e'))], self)))"
proof (intro conjI impI)
  assume "generate_orbit_path sat_at predictor (now1 clk) s1 dur points = Inl e \<or>
    (\<exists>p1. generate_orbit_path sat_at predictor (now1 clk) s1 dur points = Inr p1 \<and>
          generate_orbit_path sat_at predictor (now2 clk) s2 dur points = Inl e)"
  then show "analyze_close_approach sat_at clk self predictor s1 s2 dur points =
        (Inr [(''error'', Str (''Could not generate orbits: '' @ str_exn e))], self)"
    by (rule analyze_close_approach_error)
next
  assume "satellites predictor s1 = None"
  then have "generate_orbit_path sat_at predictor (now1 clk) s1 dur points = Inl (not_found s1)"
    by (rule generate_orbit_path_unknown)
  then show "analyze_close_approach sat_at clk self predictor s1 s2 dur points =
        (Inr [(''error'', Str (''Could not generate orbits: '' @ str_exn (not_found s1)))],
         self)"
    by (intro analyze_close_approach_error disjI1)
next
  assume "satellites predictor s2 = None"
  then have g2: "generate_orbit_path sat_at predictor (now2 clk) s2 dur points = Inl (not_found s2)"
    by (rule generate_orbit_path_unknown)
  show "\<exists>e'. analyze_close_approach sat_at clk self predictor s1 s2 dur points =
        (Inr [(''error'', Str (''Could not generate orbits: '' @ str_exn e'))], self)"
  proof (cases "generate_orbit_path sat_at predictor (now1 clk) s1 dur points")
    case (Inl e1)
    then show ?thesis by (intro exI [of _ e1] analyze_close_approach_error disjI1)
  next
    case (Inr p1)
    with g2 have "\<exists>p1. generate_orbit_path sat_at predictor (now1 clk) s1 dur points = Inr p1 \<and>
          generate_orbit_path sat_at predictor (now2 clk) s2 dur points = Inl (not_found s2)"
      by blast
    then show ?thesis
      by (intro exI [of _ "not_found s2"] analyze_close_approach_error disjI2)
  qed
qed

theorem generation_failure_is_reported_witness:
  "generate_orbit_path demo_at demo_predictor (now1 demo_clock) ''X'' 4 5 = Inl (not_found ''X'')
   \<and> satellites demo_predictor ''X'' = None
   \<and> satellites demo_predictor ''Y'' = None
   \<and> analyze_close_approach demo_at demo_clock (init_detector 10) demo_predictor ''X'' ''Y'' 4 5 =
       (Inr [(''error'', Str ''Could not generate orbits: Satellite 'X' not found'')],
        init_detector 10)"
proof -
  have n: "satellites demo_predictor ''X'' = None" "satellites demo_predictor ''Y'' = None"
    by (simp_all add: demo_predictor_def)
  then have g: "generate_orbit_path demo_at demo_predictor (now1 demo_clock) ''X'' 4 5 =
                  Inl (not_found ''X'')"
    by (simp add: generate_orbit_path_def)
  from generation_failure_is_reported
    [of demo_at demo_predictor demo_clock "''X''" 4 5 "not_found ''X''" "''Y''" "init_detector 10"]
    g n
  show ?thesis by (simp add: not_found_def)
qed

subsection \<open>Sampling times of the two paths\<close>

text \<open>
  C4, as stated, fails: with the second path generated one second after the first, the
  two paths are sampled at different instants, and the analysis returns a result with no
  \<^verbatim>\<open>error\<close> key.
\<close>

theorem mismatched_sampling_counterexample:
  "sample_times (now1 late_clock) 4 5 = [0, 3600, 7200, 10800, 14400]
   \<and> sample_times (now2 late_clock) 4 5 = [1, 3601, 7201, 10801, 14401]
   \<and> analyze_close_approach demo_at late_clock (init_detector 10) demo_predictor
        ''A'' ''B'' 4 5 = (Inr late_result, init_detector 10)
   \<and> map_of late_result ''error'' = None
   \<and> map_of late_result ''min_distance_km'' = Some (PyFloat 2)"
  using late_analysis demo_sample_times
  by (simp add: late_clock_def) (simp add: late_result_def)

text \<open>
  C4, amended. The analysis compares no timestamps: whenever both paths are generated,
  whatever the readings of the clock, it returns a dictionary with the nine result keys
  and no \<^verbatim>\<open>error\<close> key, and the detector unchanged.
\<close>

theorem analysis_compares_no_timestamps:
  assumes "generate_orbit_path sat_at predictor (now1 clk) s1 dur points = Inr p1"
    and "generate_orbit_path sat_at predictor (now2 clk) s2 dur points = Inr p2"
  shows "\<exists>d. analyze_close_approach sat_at clk self predictor s1 s2 dur points = (Inr d, self)
           \<and> map_of d ''error'' = None
           \<and> map fst d = [''satellite_1'', ''satellite_2'', ''min_distance_km'',
                ''closest_approach_time'', ''relative_velocity_km_s'', ''collision_risk'',
                ''warning_periods'', ''all_distances'', ''times'']"
proof -
  from analyze_close_approach_ok [OF assms, of self]
  have an: "analyze_close_approach sat_at clk self predictor s1 s2 dur points =
              (close_approach self s1 s2 dur points (now3 clk) p1 p2, self)"
    and w1: "wf_path p1 (nat points)" and w2: "wf_path p2 (nat points)" and pos: "0 < points"
    by simp_all
  from pos have "0 < nat points" "points \<noteq> 0" by simp_all
  from close_approach_wf [OF w1 w2 this, of self s1 s2 dur "now3 clk"]
  obtain d where "close_approach self s1 s2 dur points (now3 clk) p1 p2 = Inr d"
    and "map_of d ''error'' = None"
    and "map fst d = [''satellite_1'', ''satellite_2'', ''min_distance_km'',
                ''closest_approach_time'', ''relative_velocity_km_s'', ''collision_risk'',
                ''warning_periods'', ''all_distances'', ''times'']"
    by auto
  with an show ?thesis by simp
qed

theorem analysis_compares_no_timestamps_witness:
  "generate_orbit_path demo_at demo_predictor (now1 late_clock) ''A'' 4 5 =
     Inr ([100, 50, 2, 60, 120], [0, 0, 0, 0, 0], [0, 0, 0, 0, 0])
   \<and> generate_orbit_path demo_at demo_predictor (now2 late_clock) ''B'' 4 5 =
     Inr ([0, 0, 0, 0, 0], [0, 0, 0, 0, 0], [0, 0, 0, 0, 0])
   \<and> map_of (projr (fst (analyze_close_approach demo_at late_clock (init_detector 10)
                             demo_predictor ''A'' ''B'' 4 5))) ''error'' = None"
proof -
  have g1: "generate_orbit_path demo_at demo_predictor (now1 late_clock) ''A'' 4 5 =
              Inr ([100, 50, 2, 60, 120], [0, 0, 0, 0, 0], [0, 0, 0, 0, 0])"
    using demo_path_a by (simp add: late_clock_def)
  from analysis_compares_no_timestamps [OF g1 demo_path_b, of "init_detector 10"]
  obtain d where
    "analyze_close_approach demo_at late_clock (init_detector 10) demo_predictor
       ''A'' ''B'' 4 5 = (Inr d, init_detector 10)"
    and "map_of d ''error'' = None"
    by auto
  with g1 demo_path_b show ?thesis by simp
qed

subsection \<open>Loading a second file\<close>

text \<open>
  C8, as stated, fails: after the file of A, loading the file of B, in which the name A
  does not occur, leaves the record of A retrievable.
\<close>

theorem reload_keeps_old_records_counterexample:
  "demo_tle_file ''b.tle'' = Inr [sat_b]
   \<and> ''A'' \<notin> name ` set [sat_b]
   \<and> satellites catalog_a ''A'' = Some sat_a
   \<and> catalog_a_b = snd (load_tle_file demo_tle_file catalog_a ''b.tle'')
   \<and> satellites catalog_a_b ''A'' = Some sat_a"
  by (simp add: demo_tle_file_def catalog_a_satellites catalog_a_b_satellites sat_b_def)
    (simp add: catalog_a_b_def)

text \<open>
  C8, amended. A load merges into the catalog: a record whose name does not occur in the
  new file stays as it was, and a name that occurs in the new file is mapped to a record
  of the new file.
\<close>

theorem load_merges_into_catalog:
  assumes "tle_file path = Inr sats"
  shows "(nm \<notin> name ` set sats \<longrightarrow>
            satellites (snd (load_tle_file tle_file self path)) nm = satellites self nm)
         \<and> (nm \<in> name ` set sats \<longrightarrow>
            (\<exists>sat \<in> set sats. name sat = nm \<and>
               satellites (snd (load_tle_file tle_file self path)) nm = Some sat))"
  using assms
  by (simp add: load_tle_file_def store_satellites_other store_satellites_in)

theorem load_merges_into_catalog_witness:
  "demo_tle_file ''b.tle'' = Inr [sat_b]
   \<and> ''A'' \<notin> name ` set [sat_b]
   \<and> ''B'' \<in> name ` set [sat_b]
   \<and> satellites (snd (load_tle_file demo_tle_file catalog_a ''b.tle'')) ''A''
       = satellites catalog_a ''A''
   \<and> satellites (snd (load_tle_file demo_tle_file catalog_a ''b.tle'')) ''B'' = Some sat_b"
proof -
  have f: "demo_tle_file ''b.tle'' = Inr [sat_b]" by (simp add: demo_tle_file_def)
  have a: "''A'' \<notin> name ` set [sat_b]" and b: "''B'' \<in> name ` set [sat_b]"
    by (simp_all add: sat_b_def)
  from load_merges_into_catalog [of demo_tle_file "''b.tle''" "[sat_b]" "''A''" catalog_a, OF f] a
  have ka: "satellites (snd (load_tle_file demo_tle_file catalog_a ''b.tle'')) ''A''
              = satellites catalog_a ''A''"
    by blast
  from load_merges_into_catalog [of demo_tle_file "''b.tle''" "[sat_b]" "''B''" catalog_a, OF f] b
  have kb: "satellites (snd (load_tle_file demo_tle_file catalog_a ''b.tle'')) ''B'' = Some sat_b"
    by simp
  from f a b ka kb show ?thesis by blast
qed

subsection \<open>Prediction far from the epoch\<close>

text \<open>
  C3, as stated, fails: a prediction for A a thousand million seconds after its epoch
  returns a position.
\<close>

theorem no_validity_window_counterexample:
  "satellites demo_predictor ''A'' = Some sat_a
   \<and> epoch sat_a = 0
   \<and> predict_position demo_at demo_predictor ''A'' 1000000000 = Inr (120, 0, 0)"
  by (simp add: demo_predictor_def predict_position_def demo_at_def utc_def sat_a_def)

text \<open>
  C3, amended. \<^verbatim>\<open>predict_position\<close> compares the requested time with no epoch:
  for a record of the catalog and any offset from its epoch, it returns what the
  propagation library returns for the record at the requested time, cut to whole seconds.
\<close>

theorem predict_position_checks_no_epoch:
  assumes "satellites self nm = Some sat"
  shows "predict_position sat_at self nm (epoch sat + offset) =
           sat_at sat (utc (epoch sat + offset))"
  using assms by (simp add: predict_position_def)

theorem predict_position_checks_no_epoch_witness:
  "satellites demo_predictor ''A'' = Some sat_a
   \<and> predict_position demo_at demo_predictor ''A'' (epoch sat_a + 1000000000)
       = demo_at sat_a (utc (epoch sat_a + 1000000000))"
proof -
  have a: "satellites demo_predictor ''A'' = Some sat_a"
    by (simp add: demo_predictor_def)
  from predict_position_checks_no_epoch [OF a, of demo_at 1000000000] a
  show ?thesis by blast
qed

subsection \<open>Relative velocity\<close>

text \<open>
  C2. \<^verbatim>\<open>generate_orbit_path\<close> places its 5 samples over 4 hours at the hours
  0, 1, 2, 3 and 4 (\<^verbatim>\<open>np.linspace\<close> includes both ends), so the samples next to the
  minimum at index 2 are 7200 seconds apart and the central difference of the distances
  50 and 60 over that time is 1/720 km/s. The analysis divides by twice
  \<^verbatim>\<open>duration_hours / points\<close>, 5760 seconds, and reports 1/576 km/s.
\<close>

theorem relative_velocity_step_mismatch:
  "fst (analyze_close_approach demo_at demo_clock (init_detector 10) demo_predictor
          ''A'' ''B'' 4 5) = Inr demo_result
   \<and> map_of demo_result ''all_distances'' = Some (Array [100, 50, 2, 60, 120])
   \<and> argmin [100, 50, 2, 60, 120] = Inr 2
   \<and> map_of demo_result ''relative_velocity_km_s'' = Some (PyFloat (1 / 576))
   \<and> sample_times (now1 demo_clock) 4 5 = [0, 3600, 7200, 10800, 14400]
   \<and> sample_times (now2 demo_clock) 4 5 = [0, 3600, 7200, 10800, 14400]
   \<and> central_difference [100, 50, 2, 60, 120] [0, 3600, 7200, 10800, 14400] 2 = 1 / 720"
  using demo_analysis demo_sample_times
  by (simp add: demo_clock_def central_difference_def) (simp add: demo_result_def)

end
